theory Spec2Isabelle
  imports Main "HOL-Library.Sublist"
begin

section \<open>Python values and exceptions\<close>

text \<open>
  The program is \<^verbatim>\<open>src/convert.py\<close>. What \<^verbatim>\<open>json.load\<close> can return is a JSON value;
  a number is modelled as an integer (the program only ever writes integers).
  An object keeps its members in file order; Python keeps the last of two equal keys.
\<close>

datatype json =
    JNull
  | JBool bool
  | JInt int
  | JStr string
  | JArr "json list"
  | JObj "(string \<times> json) list"

datatype exn =
    FileNotFoundError
  | JSONDecodeError
  | OtherReadError
  | KeyError string
  | TypeError
  | ValueError string
  | LaunchError
  | ParseError

text \<open>Truth value of a Python object, as \<^verbatim>\<open>if state\<close> and \<^verbatim>\<open>x if state else y\<close> test it.\<close>

fun truthy :: "json \<Rightarrow> bool" where
  "truthy JNull = False"
| "truthy (JBool b) = b"
| "truthy (JInt n) = (n \<noteq> 0)"
| "truthy (JStr s) = (s \<noteq> [])"
| "truthy (JArr xs) = (xs \<noteq> [])"
| "truthy (JObj kvs) = (kvs \<noteq> [])"

text \<open>\<^verbatim>\<open>state[key]\<close> with a string key: a lookup in a dict, an exception on anything else.\<close>

fun subscript :: "json \<Rightarrow> string \<Rightarrow> exn + json" where
  "subscript (JObj kvs) k =
     (case map_of (rev kvs) k of None \<Rightarrow> Inl (KeyError k) | Some v \<Rightarrow> Inr v)"
| "subscript _ k = Inl TypeError"

section \<open>Checkpoint Manager\<close>

text \<open>
  What opening and parsing the checkpoint file can do: the file is missing, it cannot be
  opened or decoded as text (any exception other than the two that \<^verbatim>\<open>load_state\<close>
  catches), its text is not a JSON document, or it parses to a JSON value.
\<close>

datatype state_file = NoFile | Unreadable | NotJson | Json json

text \<open>
  \<^verbatim>\<open>
  def load_state(state_file):
      try:
          with open(state_file, 'r') as f:
              return json.load(f)
      except (FileNotFoundError, json.JSONDecodeError):
          return None
  \<close>
  \<open>Inr None\<close> is the returned \<^verbatim>\<open>None\<close>, \<open>Inl e\<close> an exception that leaves the function.
\<close>

fun load_state :: "state_file \<Rightarrow> exn + json option" where
  "load_state NoFile = Inr None"
| "load_state NotJson = Inr None"
| "load_state Unreadable = Inl OtherReadError"
| "load_state (Json j) = Inr (Some j)"

text \<open>
  \<^verbatim>\<open>
  state = load_state(state_file)
  processed = state['position'] if state else args.resume_from
  success = state['success'] if state else 0
  failed = state['failed'] if state else 0
  \<close>
  These lines of \<^verbatim>\<open>main\<close> stand before its \<^verbatim>\<open>try\<close>: an exception here ends the
  process with a traceback. The three values are Python objects, whatever the file held.
\<close>

definition state_truthy :: "json option \<Rightarrow> bool" where
  "state_truthy st = (case st of None \<Rightarrow> False | Some j \<Rightarrow> truthy j)"

definition field_or :: "json option \<Rightarrow> string \<Rightarrow> json \<Rightarrow> exn + json" where
  "field_or st k dflt = (if state_truthy st then subscript (the st) k else Inr dflt)"

definition initial_counters :: "state_file \<Rightarrow> int \<Rightarrow> exn + (json \<times> json \<times> json)" where
  "initial_counters sf resume_from =
     (case load_state sf of
        Inl e \<Rightarrow> Inl e
      | Inr st \<Rightarrow>
          (case field_or st ''position'' (JInt resume_from) of
             Inl e \<Rightarrow> Inl e
           | Inr processed \<Rightarrow>
               (case field_or st ''success'' (JInt 0) of
                  Inl e \<Rightarrow> Inl e
                | Inr success \<Rightarrow>
                    (case field_or st ''failed'' (JInt 0) of
                       Inl e \<Rightarrow> Inl e
                     | Inr failed \<Rightarrow> Inr (processed, success, failed)))))"

text \<open>
  \<^verbatim>\<open>
  def save_state(state_file, processed, success, failed):
      state = {'position': processed, 'success': success, 'failed': failed,
               'last_updated': time.strftime('%Y-%m-%d %H:%M:%S'),
               'status': 'terminated' if should_exit else 'in_progress'}
      with open(state_file, 'w') as f:
          json.dump(state, f)
  \<close>
  The global \<^verbatim>\<open>should_exit\<close> and the clock are read at the call; they are arguments here.
  The result is the object written to the file.
\<close>

definition save_state :: "bool \<Rightarrow> string \<Rightarrow> json \<Rightarrow> json \<Rightarrow> json \<Rightarrow> json" where
  "save_state should_exit now processed success failed =
     JObj [(''position'', processed), (''success'', success), (''failed'', failed),
           (''last_updated'', JStr now),
           (''status'', JStr (if should_exit then ''terminated'' else ''in_progress''))]"

section \<open>Stream Reader\<close>

text \<open>
  Python's \<^verbatim>\<open>str.strip()\<close> removes leading and trailing whitespace; these are the
  characters below 256 for which \<^verbatim>\<open>str.isspace\<close> holds.
\<close>

definition py_isspace :: "char \<Rightarrow> bool" where
  "py_isspace c = (c \<in> set [CHR 0x09, CHR 0x0A, CHR 0x0B, CHR 0x0C, CHR 0x0D, CHR 0x1C,
     CHR 0x1D, CHR 0x1E, CHR 0x1F, CHR 0x20, CHR 0x85, CHR 0xA0])"

definition strip :: "string \<Rightarrow> string" where
  "strip s = rev (dropWhile py_isspace (rev (dropWhile py_isspace s)))"

text \<open>
  What \<^verbatim>\<open>element.find(path, namespaces)\<close> followed by \<^verbatim>\<open>.text\<close> can give: no such
  child (\<^verbatim>\<open>find\<close> returns \<^verbatim>\<open>None\<close>), a child whose \<^verbatim>\<open>text\<close> is \<^verbatim>\<open>None\<close> (ElementTree's
  value for a child without character data), or a child with text.
  An element carries its tag and the two children \<^verbatim>\<open>process_page\<close> looks for.
\<close>

datatype child = Absent | NoText | Text string

record element =
  tag :: string
  title_elem :: child
  text_elem :: child

fun valid :: "child \<Rightarrow> bool" where
  "valid (Text s) = True"
| "valid _ = False"

fun text_of :: "child \<Rightarrow> string" where
  "text_of (Text s) = s"
| "text_of _ = []"

text \<open>
  \<^verbatim>\<open>
  def process_page(element, namespace):
      title_elem = element.find('ns:title', namespaces)
      text_elem = element.find('ns:revision/ns:text', namespaces)
      valid_title = title_elem is not None and title_elem.text is not None
      valid_text = text_elem is not None and text_elem.text is not None
      if valid_title and valid_text:
          return (title_elem.text.strip(), text_elem.text.strip())
      return None
  \<close>
\<close>

definition process_page :: "element \<Rightarrow> (string \<times> string) option" where
  "process_page e =
     (if valid (title_elem e) \<and> valid (text_elem e)
      then Some (strip (text_of (title_elem e)), strip (text_of (text_elem e)))
      else None)"

text \<open>
  The events of \<^verbatim>\<open>ET.iterparse(xml_file, events=('start', 'end'))\<close>. The iterator yields
  events until the document ends, or raises \<^verbatim>\<open>ParseError\<close> where the document is
  malformed.
\<close>

datatype kind = Start | End

datatype item = Ev kind element | Malformed

text \<open>
  \<^verbatim>\<open>namespace = element.tag.split('}')[0].strip('{')\<close>, and the tag a page element is
  recognised by, \<^verbatim>\<open>f'{{{namespace}}}page'\<close> (which formats \<^verbatim>\<open>None\<close> as the word).
\<close>

definition detect_namespace :: "string \<Rightarrow> string" where
  "detect_namespace t =
     rev (dropWhile (\<lambda>c. c = CHR ''{'') (rev (dropWhile (\<lambda>c. c = CHR ''{'')
       (takeWhile (\<lambda>c. c \<noteq> CHR ''}'') t))))"

definition page_tag :: "string option \<Rightarrow> string" where
  "page_tag ns = ''{'' @ (case ns of None \<Rightarrow> ''None'' | Some n \<Rightarrow> n) @ ''}page''"

definition is_page :: "string option \<Rightarrow> item \<Rightarrow> bool" where
  "is_page ns it = (case it of Ev k e \<Rightarrow> k = End \<and> tag e = page_tag ns | Malformed \<Rightarrow> False)"

section \<open>Batch Scheduler\<close>

text \<open>
  The inner loop of \<^verbatim>\<open>main\<close>, which fills the batch from the same iterator:
  \<^verbatim>\<open>
  while len(batch) < args.batch_size:
      try:
          next_event, next_element = next(context)
          if next_event == 'end' and next_element.tag == f'{{{namespace}}}page':
              next_data = process_page(next_element, namespace)
              next_element.clear()
              if next_data:
                  batch.append(next_data)
      except StopIteration:
          break
  \<close>
  A returned pair is a non-empty tuple, so \<^verbatim>\<open>if next_data\<close> only tests for \<^verbatim>\<open>None\<close>.
  The result is the batch and the events not yet pulled, or the \<^verbatim>\<open>ParseError\<close> that
  \<^verbatim>\<open>next\<close> raised.
\<close>

fun fill_batch :: "int \<Rightarrow> string option \<Rightarrow> (string \<times> string) list \<Rightarrow> item list
    \<Rightarrow> exn + ((string \<times> string) list \<times> item list)" where
  "fill_batch bs ns batch [] = Inr (batch, [])"
| "fill_batch bs ns batch (it # rest) =
     (if \<not> int (length batch) < bs then Inr (batch, it # rest)
      else (case it of
          Malformed \<Rightarrow> Inl ParseError
        | Ev k e \<Rightarrow>
            (if k = End \<and> tag e = page_tag ns
             then (case process_page e of
                 Some next_data \<Rightarrow> fill_batch bs ns (batch @ [next_data]) rest
               | None \<Rightarrow> fill_batch bs ns batch rest)
             else fill_batch bs ns batch rest)))"

text \<open>
  The state of \<^verbatim>\<open>main\<close>: its three counters, the detected namespace, the global flag
  \<^verbatim>\<open>should_exit\<close>, the checkpoint objects written so far (oldest first) and the number of
  batches handed to the pool so far.
\<close>

record run_state =
  processed :: int
  success :: int
  failed :: int
  namespace :: "string option"
  should_exit :: bool
  saved :: "json list"
  dispatched :: nat

text \<open>
  What the run does not decide itself: the result of \<^verbatim>\<open>process_single_page\<close> for a
  record (it catches every exception and returns a truth value), the clock reading at
  the n-th checkpoint write, and the batch (counted from 0) during whose execution the
  signal handler sets \<^verbatim>\<open>should_exit\<close>, if any.
\<close>

record env =
  worker :: "string \<times> string \<Rightarrow> bool"
  clock :: "nat \<Rightarrow> string"
  cancel_during :: "nat option"

definition save :: "env \<Rightarrow> run_state \<Rightarrow> run_state" where
  "save ev st = st\<lparr>saved := saved st @
     [save_state (should_exit st) (clock ev (length (saved st)))
        (JInt (processed st)) (JInt (success st)) (JInt (failed st))]\<rparr>"

text \<open>
  \<^verbatim>\<open>
  with Pool(cpu_count()) as pool:
      results = pool.starmap(process_single_page, [(p[0], p[1], ...) for p in batch])
  success += sum(results)
  failed += len(results) - sum(results)
  processed += len(batch)
  save_state(state_file, processed, success, failed)
  \<close>
\<close>

definition run_batch :: "env \<Rightarrow> run_state \<Rightarrow> (string \<times> string) list \<Rightarrow> run_state" where
  "run_batch ev st batch =
     (let results = map (worker ev) batch;
          oks = int (length (filter (\<lambda>r. r) results));
          st1 = st\<lparr>should_exit := should_exit st \<or> cancel_during ev = Some (dispatched st),
                    dispatched := Suc (dispatched st)\<rparr>;
          st2 = st1\<lparr>success := success st1 + oks,
                     failed := failed st1 + (int (length results) - oks),
                     processed := processed st1 + int (length batch)\<rparr>
      in save ev st2)"

record outcome =
  final :: run_state
  exit_code :: int
  unread :: "item list"

text \<open>The inner loop never gives events back: what it leaves is a suffix of what it got.\<close>

lemma fill_batch_length:
  "fill_batch bs ns batch evs = Inr (batch', evs') \<Longrightarrow> length evs' \<le> length evs"
proof (induction evs arbitrary: batch)
  case Nil
  then show ?case by simp
next
  case (Cons it rest)
  show ?case
  proof (cases "int (length batch) < bs")
    case False
    with Cons.prems show ?thesis by simp
  next
    case True
    with Cons.prems obtain b where "fill_batch bs ns b rest = Inr (batch', evs')"
      by (auto split: item.splits if_splits option.splits)
    from Cons.IH [OF this] show ?thesis by simp
  qed
qed

text \<open>
  The loop of \<^verbatim>\<open>main\<close> over the events (lines 228 to 287). The \<^verbatim>\<open>for\<close> statement pulls
  the next event first, which is where a \<^verbatim>\<open>ParseError\<close> is raised (exit code 1); then
  the flag is tested, and if it is set the state is saved and the process exits with
  code 0, leaving the rest of the input unread. When the events are exhausted \<^verbatim>\<open>main\<close>
  returns, which is exit code 0 as well.
\<close>

function main_loop :: "env \<Rightarrow> int \<Rightarrow> run_state \<Rightarrow> item list \<Rightarrow> outcome" where
  "main_loop ev bs st [] = \<lparr>final = st, exit_code = 0, unread = []\<rparr>"
| "main_loop ev bs st (Malformed # rest) = \<lparr>final = st, exit_code = 1, unread = rest\<rparr>"
| "main_loop ev bs st (Ev k e # rest) =
     (if should_exit st then \<lparr>final = save ev st, exit_code = 0, unread = rest\<rparr>
      else if k = Start \<and> namespace st = None
        then main_loop ev bs (st\<lparr>namespace := Some (detect_namespace (tag e))\<rparr>) rest
      else if k = End \<and> tag e = page_tag (namespace st)
        then (case process_page e of
            None \<Rightarrow>
              main_loop ev bs (st\<lparr>failed := failed st + 1, processed := processed st + 1\<rparr>) rest
          | Some page_data \<Rightarrow>
              (case fill_batch bs (namespace st) [page_data] rest of
                 Inl err \<Rightarrow> \<lparr>final = st, exit_code = 1, unread = []\<rparr>
               | Inr (batch, rest') \<Rightarrow> main_loop ev bs (run_batch ev st batch) rest'))
      else main_loop ev bs st rest)"
  by pat_completeness auto
termination
  by (relation "measure (\<lambda>(ev, bs, st, evs). length evs)")
     (auto dest: fill_batch_length)

declare main_loop.simps(3) [simp del]

text \<open>
  The whole of \<^verbatim>\<open>main\<close> after its set-up: the counters are initialised from the
  checkpoint file or the arguments, then the loop runs with the flag unset. The loop is
  modelled for integer counters, which is what \<^verbatim>\<open>save_state\<close> writes and \<^verbatim>\<open>argparse\<close>
  delivers; a checkpoint holding anything else is outside the model.
\<close>

datatype run_result = Crashed exn | Ran outcome | NotModelled

definition initial_state :: "int \<Rightarrow> int \<Rightarrow> int \<Rightarrow> run_state" where
  "initial_state p s f = \<lparr>processed = p, success = s, failed = f, namespace = None,
     should_exit = False, saved = [], dispatched = 0\<rparr>"

definition main :: "state_file \<Rightarrow> int \<Rightarrow> int \<Rightarrow> env \<Rightarrow> item list \<Rightarrow> run_result" where
  "main sf resume_from bs ev evs =
     (case initial_counters sf resume_from of
        Inl e \<Rightarrow> Crashed e
      | Inr (JInt p, JInt s, JInt f) \<Rightarrow> Ran (main_loop ev bs (initial_state p s f) evs)
      | Inr _ \<Rightarrow> NotModelled)"

section \<open>Markup Cleaner\<close>
































text \<open>
  Texts for which the cleaner can be followed rule by rule: sequences of plain text,
  short-description templates, empty named references (with double or single quotes,
  possibly with whitespace between the tags) and internal links (without and with a
  label). Plain text, descriptions, names, targets and labels hold none of the
  characters \<^verbatim>\<open>{ } [ ] | <\<close>; a name does not hold its own quote, a link no newline.
  \<open>shown sd rd rs lk\<close> writes a construct as markup, or in its rewritten form when the
  rule for its kind has run (\<open>sd\<close> for short descriptions, \<open>rd\<close> and \<open>rs\<close> for
  references with double and single quotes, \<open>lk\<close> for links).
\<close>

definition plain :: "char \<Rightarrow> bool" where
  "plain c = (c \<notin> set ''{}[]|<'')"

datatype construct =
    Plain string
  | ShortDesc string
  | RefD string string
  | RefS string string
  | Link string
  | PipedLink string string

fun wf :: "construct \<Rightarrow> bool" where
  "wf (Plain p) = list_all plain p"
| "wf (ShortDesc d) = (d \<noteq> [] \<and> list_all plain d)"
| "wf (RefD n w) = (n \<noteq> [] \<and> list_all plain n \<and> CHR 0x22 \<notin> set n \<and> list_all py_isspace w)"
| "wf (RefS n w) = (n \<noteq> [] \<and> list_all plain n \<and> CHR 0x27 \<notin> set n \<and> list_all py_isspace w)"
| "wf (Link t) = (t \<noteq> [] \<and> list_all plain t \<and> CHR 0x0A \<notin> set t)"
| "wf (PipedLink t l) =
     (list_all plain t \<and> list_all plain l \<and> CHR 0x0A \<notin> set t \<and> CHR 0x0A \<notin> set l)"






section \<open>Conversion Invoker\<close>








section \<open>Reading checkpoints and documents\<close>

text \<open>The integer and the status stored in a written checkpoint object.\<close>

definition ck_int :: "string \<Rightarrow> json \<Rightarrow> int" where
  "ck_int k j = (case subscript j k of Inr (JInt n) \<Rightarrow> n | _ \<Rightarrow> 0)"

definition ck_status :: "json \<Rightarrow> string" where
  "ck_status j = (case subscript j ''status'' of Inr (JStr s) \<Rightarrow> s | _ \<Rightarrow> [])"

text \<open>
  The page elements of a sequence of events, for a namespace; events that are neither
  a page element nor the point where parsing fails; and the checkpoints whose position
  lies in a range and whose counters are a fixed distance from the position.
\<close>

definition pages :: "string option \<Rightarrow> item list \<Rightarrow> item list" where
  "pages ns evs = filter (is_page ns) evs"

definition junk :: "string option \<Rightarrow> item list \<Rightarrow> bool" where
  "junk ns js = (\<forall>it\<in>set js. it \<noteq> Malformed \<and> \<not> is_page ns it)"


text \<open>A small document and environment to run the program on.\<close>

definition ex_root :: element where
  "ex_root = \<lparr>tag = ''{http://www.mediawiki.org/xml/export-0.10/}mediawiki'',
     title_elem = Absent, text_elem = Absent\<rparr>"

definition ex_page :: "string \<Rightarrow> string \<Rightarrow> item" where
  "ex_page t x = Ev End \<lparr>tag = ''{http://www.mediawiki.org/xml/export-0.10/}page'',
     title_elem = Text t, text_elem = Text x\<rparr>"

definition ex_bad :: item where
  "ex_bad = Ev End \<lparr>tag = ''{http://www.mediawiki.org/xml/export-0.10/}page'',
     title_elem = Text ''Stub'', text_elem = NoText\<rparr>"

definition all_ok :: "string \<times> string \<Rightarrow> bool" where
  "all_ok r = True"

definition noon :: "nat \<Rightarrow> string" where
  "noon n = ''2024-01-01 12:00:00''"

definition ex_env :: env where
  "ex_env = \<lparr>worker = all_ok, clock = noon, cancel_during = None\<rparr>"





section \<open>Checkpoint Manager: properties\<close>

lemma field_or_None: "field_or None k d = Inr d"
  by (simp add: field_or_def state_truthy_def)

lemma field_or_obj:
  "kvs \<noteq> [] \<Longrightarrow> map_of (rev kvs) k = Some v \<Longrightarrow> field_or (Some (JObj kvs)) k d = Inr v"
  by (simp add: field_or_def state_truthy_def)

lemma initial_counters_obj:
  assumes "map_of (rev kvs) ''position'' = Some p"
    and "map_of (rev kvs) ''success'' = Some s"
    and "map_of (rev kvs) ''failed'' = Some f"
  shows "initial_counters (Json (JObj kvs)) resume_from = Inr (p, s, f)"
proof -
  from assms(1) have ne: "kvs \<noteq> []" by auto
  show ?thesis
    unfolding initial_counters_def
    by (simp add: field_or_obj [OF ne assms(1)] field_or_obj [OF ne assms(2)]
        field_or_obj [OF ne assms(3)])
qed

lemma initial_counters_saved:
  "initial_counters (Json (save_state ex now p s f)) resume_from = Inr (p, s, f)"
  unfolding save_state_def by (rule initial_counters_obj) simp_all

text \<open>
  C4 (as amended). When the checkpoint file is missing, or its text is not a JSON
  document, the run starts from the default state: position is the \<^verbatim>\<open>--resume-from\<close>
  argument, both counters are zero, no exception leaves the start-up lines, and a save
  made while no cancellation was requested writes the status \<^verbatim>\<open>in_progress\<close>.
\<close>

theorem load_default_when_absent_or_not_json:
  assumes "sf = NoFile \<or> sf = NotJson"
  shows "initial_counters sf resume_from = Inr (JInt resume_from, JInt 0, JInt 0)
    \<and> subscript (save_state False now (JInt resume_from) (JInt 0) (JInt 0)) ''status''
        = Inr (JStr ''in_progress'')"
  using assms
  by (auto simp add: initial_counters_def field_or_None save_state_def)

theorem load_default_when_absent_or_not_json_witness:
  "initial_counters NotJson 7 = Inr (JInt 7, JInt 0, JInt 0)
    \<and> subscript (save_state False ''2024-01-01 00:00:00'' (JInt 7) (JInt 0) (JInt 0)) ''status''
        = Inr (JStr ''in_progress'')"
  using load_default_when_absent_or_not_json [of NotJson 7 "''2024-01-01 00:00:00''"]
  by simp

text \<open>
  C4 as stated fails: a checkpoint file that cannot be read as text, and one that parses
  as JSON but lacks a counter, both end the run with an uncaught exception.
\<close>

theorem load_corrupt_is_fatal_counterexample:
  "initial_counters Unreadable 0 = Inl OtherReadError
    \<and> initial_counters (Json (JObj [(''position'', JInt 5)])) 0 = Inl (KeyError ''success'')
    \<and> initial_counters (Json (JArr [JInt 1])) 0 = Inl TypeError"
  by (simp add: initial_counters_def field_or_def state_truthy_def)

text \<open>
  C10 (as amended). When the checkpoint file parses to a JSON object that holds
  \<^verbatim>\<open>position\<close>, \<^verbatim>\<open>success\<close> and \<^verbatim>\<open>failed\<close>, these three values are adopted whatever the
  other members (the status among them) are and whatever \<^verbatim>\<open>--resume-from\<close> is; a
  checkpoint written by \<^verbatim>\<open>save_state\<close> during a cancelled run is adopted exactly like
  one written during an uncancelled run.
\<close>

theorem checkpoint_adopted_whatever_status:
  "(map_of (rev kvs) ''position'' = Some p \<and> map_of (rev kvs) ''success'' = Some s
      \<and> map_of (rev kvs) ''failed'' = Some f
     \<longrightarrow> initial_counters (Json (JObj kvs)) resume_from = Inr (p, s, f))
   \<and> initial_counters (Json (save_state True now p s f)) resume_from = Inr (p, s, f)
   \<and> initial_counters (Json (save_state False now p s f)) resume_from = Inr (p, s, f)"
  by (simp add: initial_counters_obj initial_counters_saved)

theorem checkpoint_adopted_whatever_status_witness:
  "map_of (rev [(''status'', JStr ''terminated''), (''failed'', JInt 1), (''success'', JInt 2),
        (''position'', JInt 3)]) ''position'' = Some (JInt 3)
   \<and> initial_counters (Json (JObj [(''status'', JStr ''terminated''), (''failed'', JInt 1),
        (''success'', JInt 2), (''position'', JInt 3)])) 40 = Inr (JInt 3, JInt 2, JInt 1)"
  using checkpoint_adopted_whatever_status
    [of "[(''status'', JStr ''terminated''), (''failed'', JInt 1), (''success'', JInt 2),
        (''position'', JInt 3)]" "JInt 3" "JInt 2" "JInt 1" 40 "''t''"]
  by simp

text \<open>
  C10 as stated fails: an empty object (or \<^verbatim>\<open>null\<close>, \<^verbatim>\<open>0\<close>, an empty list) parses as
  JSON, and the run then starts from \<^verbatim>\<open>--resume-from\<close>.
\<close>

theorem falsy_checkpoint_uses_resume_from_counterexample:
  "initial_counters (Json (JObj [])) 7 = Inr (JInt 7, JInt 0, JInt 0)
    \<and> initial_counters (Json JNull) 7 = Inr (JInt 7, JInt 0, JInt 0)"
  by (simp add: initial_counters_def field_or_def state_truthy_def)

section \<open>Stream Reader and Batch Scheduler: properties\<close>

lemma ck_save_state [simp]:
  "ck_int ''position'' (save_state e t (JInt p) (JInt s) (JInt f)) = p"
  "ck_int ''success'' (save_state e t (JInt p) (JInt s) (JInt f)) = s"
  "ck_int ''failed'' (save_state e t (JInt p) (JInt s) (JInt f)) = f"
  "ck_status (save_state e t p' s' f') = (if e then ''terminated'' else ''in_progress'')"
  by (simp_all add: ck_int_def ck_status_def save_state_def)




lemma run_batch_fields:
  "processed (run_batch ev st batch) = processed st + int (length batch)"
  "success (run_batch ev st batch) + failed (run_batch ev st batch) = success st + failed st + int (length batch)"
  "namespace (run_batch ev st batch) = namespace st"
  "dispatched (run_batch ev st batch) = Suc (dispatched st)"
  "should_exit (run_batch ev st batch) = (should_exit st \<or> cancel_during ev = Some (dispatched st))"
  "saved (run_batch ev st batch) = saved st @
     [save_state (should_exit st \<or> cancel_during ev = Some (dispatched st)) (clock ev (length (saved st)))
        (JInt (processed st + int (length batch)))
        (JInt (success st + int (length (filter (\<lambda>r. r) (map (worker ev) batch)))))
        (JInt (failed st + (int (length batch) - int (length (filter (\<lambda>r. r) (map (worker ev) batch))))))]"
  by (simp_all add: run_batch_def save_def Let_def)


lemma main_loop_skip:
  "\<not> should_exit st \<Longrightarrow> namespace st \<noteq> None \<Longrightarrow> junk (namespace st) js \<Longrightarrow>
     main_loop ev bs st (js @ evs) = main_loop ev bs st evs"
proof (induction js)
  case Nil
  then show ?case by simp
next
  case (Cons it js)
  then obtain k e where it: "it = Ev k e" and np: "\<not> (k = End \<and> tag e = page_tag (namespace st))"
    by (cases it) (auto simp add: junk_def is_page_def)
  from Cons.prems have "junk (namespace st) js" by (simp add: junk_def)
  with Cons have "main_loop ev bs st (js @ evs) = main_loop ev bs st evs" by blast
  with it np Cons.prems(1,2) show ?case
    by (auto simp add: main_loop.simps(3))
qed

lemma fill_batch_skip:
  "int (length batch) < bs \<Longrightarrow> junk ns js \<Longrightarrow>
     fill_batch bs ns batch (js @ it # evs) = fill_batch bs ns batch (it # evs)"
proof (induction js)
  case Nil
  then show ?case by simp
next
  case (Cons j js)
  then obtain k e where j: "j = Ev k e" and np: "\<not> (k = End \<and> tag e = page_tag ns)"
    by (cases j) (auto simp add: junk_def is_page_def)
  from Cons.prems have "junk ns js" by (simp add: junk_def)
  with Cons have "fill_batch bs ns batch (js @ it # evs) = fill_batch bs ns batch (it # evs)" by blast
  with j np Cons.prems(1) show ?case by auto
qed

lemma fill_batch_junk:
  "junk ns js \<Longrightarrow> fill_batch bs ns batch js = Inr (batch, if int (length batch) < bs then [] else js)"
proof (induction js)
  case Nil
  then show ?case by simp
next
  case (Cons j js)
  then obtain k e where j: "j = Ev k e" and np: "\<not> (k = End \<and> tag e = page_tag ns)"
    by (cases j) (auto simp add: junk_def is_page_def)
  from Cons.prems have "junk ns js" by (simp add: junk_def)
  with Cons have "fill_batch bs ns batch js = Inr (batch, if int (length batch) < bs then [] else js)" by blast
  with j np show ?case by auto
qed

lemma filter_first:
  "filter P xs = a # r \<Longrightarrow>
     \<exists>us vs. xs = us @ a # vs \<and> (\<forall>u\<in>set us. \<not> P u) \<and> P a \<and> filter P vs = r"
  by (auto simp add: filter_eq_Cons_iff)

lemma filter_three:
  assumes "filter P xs = [a, b, c]"
  shows "\<exists>j0 j1 j2 j3. xs = j0 @ a # j1 @ b # j2 @ c # j3
     \<and> (\<forall>x\<in>set j0. \<not> P x) \<and> (\<forall>x\<in>set j1. \<not> P x) \<and> (\<forall>x\<in>set j2. \<not> P x)
     \<and> (\<forall>x\<in>set j3. \<not> P x) \<and> P a \<and> P b \<and> P c"
proof -
  from filter_first [OF assms]
  obtain j0 v0 where 0: "xs = j0 @ a # v0" "\<forall>x\<in>set j0. \<not> P x" "P a" "filter P v0 = [b, c]"
    by blast
  from filter_first [OF 0(4)]
  obtain j1 v1 where 1: "v0 = j1 @ b # v1" "\<forall>x\<in>set j1. \<not> P x" "P b" "filter P v1 = [c]"
    by blast
  from filter_first [OF 1(4)]
  obtain j2 j3 where 2: "v1 = j2 @ c # j3" "\<forall>x\<in>set j2. \<not> P x" "P c" "filter P j3 = []"
    by blast
  from 2(4) have "\<forall>x\<in>set j3. \<not> P x" by (simp add: filter_empty_conv)
  with 0 1 2 show ?thesis by blast
qed

lemma fill_batch_full:
  "\<not> int (length batch) < bs \<Longrightarrow> fill_batch bs ns batch evs = Inr (batch, evs)"
  by (cases evs) simp_all

lemma main_loop_batch:
  assumes "\<not> should_exit st" and "tag e = page_tag (namespace st)"
    and "process_page e = Some d" and "fill_batch bs (namespace st) [d] rest = Inr (batch, rest')"
  shows "main_loop ev bs st (Ev End e # rest) = main_loop ev bs (run_batch ev st batch) rest'"
  using assms by (simp add: main_loop.simps(3))

lemma main_loop_start:
  "\<not> should_exit st \<Longrightarrow> namespace st = None \<Longrightarrow>
     main_loop ev bs st (Ev Start r # rest)
       = main_loop ev bs (st\<lparr>namespace := Some (detect_namespace (tag r))\<rparr>) rest"
  by (simp add: main_loop.simps(3))

text \<open>
  C9. A run without a usable checkpoint (and with the default \<^verbatim>\<open>--resume-from\<close> of 0) over
  a well-formed document whose page elements are exactly three valid ones, with batch
  size 2, every record converted and written successfully and no cancellation: position
  is 3, the success counter 3, the failure counter 0, and exactly two checkpoints are
  written, one after the batch of two and one after the final batch of one.
\<close>

theorem three_pages_batch_two:
  assumes sf: "sf = NoFile \<or> sf = NotJson"
    and pages: "filter (is_page (Some (detect_namespace (tag r)))) rest = [Ev End p1, Ev End p2, Ev End p3]"
    and wf: "Malformed \<notin> set rest"
    and valid: "process_page p1 = Some d1" "process_page p2 = Some d2" "process_page p3 = Some d3"
    and ok: "worker ev d1" "worker ev d2" "worker ev d3"
    and nocancel: "cancel_during ev = None"
  shows "\<exists>out. main sf 0 2 ev (Ev Start r # rest) = Ran out
    \<and> processed (final out) = 3 \<and> success (final out) = 3 \<and> failed (final out) = 0
    \<and> saved (final out) = [save_state False (clock ev 0) (JInt 2) (JInt 2) (JInt 0),
                            save_state False (clock ev 1) (JInt 3) (JInt 3) (JInt 0)]
    \<and> dispatched (final out) = 2 \<and> exit_code out = 0"
proof -
  let ?ns = "Some (detect_namespace (tag r))"
  let ?st1 = "(initial_state 0 0 0)\<lparr>namespace := ?ns\<rparr>"
  from filter_three [OF pages] obtain j0 j1 j2 j3 where
    rest: "rest = j0 @ Ev End p1 # j1 @ Ev End p2 # j2 @ Ev End p3 # j3"
    and np: "\<forall>x\<in>set j0. \<not> is_page ?ns x" "\<forall>x\<in>set j1. \<not> is_page ?ns x"
      "\<forall>x\<in>set j2. \<not> is_page ?ns x" "\<forall>x\<in>set j3. \<not> is_page ?ns x"
    and pg: "is_page ?ns (Ev End p1)" "is_page ?ns (Ev End p2)" "is_page ?ns (Ev End p3)"
    by blast
  from wf rest np have j: "junk ?ns j0" "junk ?ns j1" "junk ?ns j2" "junk ?ns j3"
    by (auto simp add: junk_def)
  from pg have tags: "tag p1 = page_tag ?ns" "tag p2 = page_tag ?ns" "tag p3 = page_tag ?ns"
    by (simp_all add: is_page_def)
  let ?st2 = "run_batch ev ?st1 [d1, d2]"
  let ?st3 = "run_batch ev ?st2 [d3]"
  have f1: "fill_batch 2 ?ns [d1] (j1 @ Ev End p2 # j2 @ Ev End p3 # j3)
      = Inr ([d1, d2], j2 @ Ev End p3 # j3)"
    using j(2) tags(2) valid(2) by (simp add: fill_batch_skip fill_batch_full)
  have f2: "fill_batch 2 ?ns [d3] j3 = Inr ([d3], [])"
    using j(4) by (simp add: fill_batch_junk)
  have s2: "\<not> should_exit ?st2" "namespace ?st2 = ?ns"
    using nocancel by (simp_all add: run_batch_fields initial_state_def)
  have "main_loop ev 2 (initial_state 0 0 0) (Ev Start r # rest) = main_loop ev 2 ?st1 rest"
    by (rule main_loop_start) (simp_all add: initial_state_def)
  also have "\<dots> = main_loop ev 2 ?st1 (Ev End p1 # j1 @ Ev End p2 # j2 @ Ev End p3 # j3)"
    unfolding rest using j(1) by (intro main_loop_skip) (simp_all add: initial_state_def)
  also have "\<dots> = main_loop ev 2 ?st2 (j2 @ Ev End p3 # j3)"
    using tags(1) valid(1) f1 by (intro main_loop_batch) (simp_all add: initial_state_def)
  also have "\<dots> = main_loop ev 2 ?st2 (Ev End p3 # j3)"
    using j(3) s2 by (intro main_loop_skip) simp_all
  also have "\<dots> = main_loop ev 2 ?st3 []"
    using tags(3) valid(3) f2 s2 by (intro main_loop_batch) simp_all
  finally have run: "main_loop ev 2 (initial_state 0 0 0) (Ev Start r # rest)
      = \<lparr>final = ?st3, exit_code = 0, unread = []\<rparr>"
    by simp
  from sf have "main sf 0 2 ev (Ev Start r # rest)
      = Ran (main_loop ev 2 (initial_state 0 0 0) (Ev Start r # rest))"
    by (auto simp add: main_def initial_counters_def field_or_None)
  with run have m: "main sf 0 2 ev (Ev Start r # rest) = Ran \<lparr>final = ?st3, exit_code = 0, unread = []\<rparr>"
    by simp
  have "processed ?st3 = 3" "success ?st3 = 3" "failed ?st3 = 0" "dispatched ?st3 = 2"
    "saved ?st3 = [save_state False (clock ev 0) (JInt 2) (JInt 2) (JInt 0),
                   save_state False (clock ev 1) (JInt 3) (JInt 3) (JInt 0)]"
    using ok nocancel by (simp_all add: run_batch_def save_def initial_state_def Let_def)
  with m show ?thesis by simp
qed

lemma ex_is_page:
  "is_page (Some (detect_namespace (tag ex_root))) (ex_page t x)"
  "is_page (Some (detect_namespace (tag ex_root))) ex_bad"
  by (simp_all add: is_page_def ex_page_def ex_bad_def ex_root_def detect_namespace_def page_tag_def)

theorem three_pages_batch_two_witness:
  "filter (is_page (Some (detect_namespace (tag ex_root))))
      [ex_page ''A'' ''a'', ex_page ''B'' ''b'', ex_page ''C'' ''c'']
    = [ex_page ''A'' ''a'', ex_page ''B'' ''b'', ex_page ''C'' ''c'']
   \<and> (\<exists>out. main NoFile 0 2 ex_env
          [Ev Start ex_root, ex_page ''A'' ''a'', ex_page ''B'' ''b'', ex_page ''C'' ''c''] = Ran out
        \<and> processed (final out) = 3 \<and> success (final out) = 3 \<and> failed (final out) = 0
        \<and> saved (final out) = [save_state False (noon 0) (JInt 2) (JInt 2) (JInt 0),
                                save_state False (noon 1) (JInt 3) (JInt 3) (JInt 0)]
        \<and> dispatched (final out) = 2 \<and> exit_code out = 0)"
proof -
  have pg: "filter (is_page (Some (detect_namespace (tag ex_root))))
      [ex_page ''A'' ''a'', ex_page ''B'' ''b'', ex_page ''C'' ''c'']
    = [Ev End \<lparr>tag = ''{http://www.mediawiki.org/xml/export-0.10/}page'', title_elem = Text ''A'', text_elem = Text ''a''\<rparr>,
       Ev End \<lparr>tag = ''{http://www.mediawiki.org/xml/export-0.10/}page'', title_elem = Text ''B'', text_elem = Text ''b''\<rparr>,
       Ev End \<lparr>tag = ''{http://www.mediawiki.org/xml/export-0.10/}page'', title_elem = Text ''C'', text_elem = Text ''c''\<rparr>]"
    using ex_is_page(1) by (simp add: ex_page_def)
  have wf: "Malformed \<notin> set [ex_page ''A'' ''a'', ex_page ''B'' ''b'', ex_page ''C'' ''c'']"
    by (simp add: ex_page_def)
  have v: "process_page \<lparr>tag = ''{http://www.mediawiki.org/xml/export-0.10/}page'', title_elem = Text ''A'', text_elem = Text ''a''\<rparr> = Some (''A'', ''a'')"
     "process_page \<lparr>tag = ''{http://www.mediawiki.org/xml/export-0.10/}page'', title_elem = Text ''B'', text_elem = Text ''b''\<rparr> = Some (''B'', ''b'')"
     "process_page \<lparr>tag = ''{http://www.mediawiki.org/xml/export-0.10/}page'', title_elem = Text ''C'', text_elem = Text ''c''\<rparr> = Some (''C'', ''c'')"
    by (simp_all add: process_page_def strip_def py_isspace_def)
  have ok: "worker ex_env (''A'', ''a'')" "worker ex_env (''B'', ''b'')" "worker ex_env (''C'', ''c'')"
    by (simp_all add: ex_env_def all_ok_def)
  have nc: "cancel_during ex_env = None" by (simp add: ex_env_def)
  have "clock ex_env = noon" by (simp add: ex_env_def)
  with three_pages_batch_two [OF disjI1 [OF refl] pg wf v ok nc] ex_is_page(1)
  show ?thesis by simp
qed





text \<open>
  C2 fails on the code. A page element without text that is met while the batch is being
  filled is dropped: neither the failure counter nor the position moves for it. With
  batch size 2 the document below (valid, invalid, valid) ends with position 2 and no
  failure, where the same invalid page met at the top of the loop is counted.
\<close>

theorem invalid_page_while_filling_is_not_counted:
  "main NoFile 0 2 ex_env [Ev Start ex_root, ex_page ''A'' ''a'', ex_bad, ex_page ''C'' ''c'']
     = Ran \<lparr>final = \<lparr>processed = 2, success = 2, failed = 0,
                namespace = Some ''http://www.mediawiki.org/xml/export-0.10/'',
                should_exit = False,
                saved = [save_state False (noon 0) (JInt 2) (JInt 2) (JInt 0)],
                dispatched = 1\<rparr>,
              exit_code = 0, unread = []\<rparr>
   \<and> main NoFile 0 2 ex_env [Ev Start ex_root, ex_bad, ex_page ''A'' ''a'', ex_page ''C'' ''c'']
     = Ran \<lparr>final = \<lparr>processed = 3, success = 2, failed = 1,
                namespace = Some ''http://www.mediawiki.org/xml/export-0.10/'',
                should_exit = False,
                saved = [save_state False (noon 0) (JInt 3) (JInt 2) (JInt 1)],
                dispatched = 1\<rparr>,
              exit_code = 0, unread = []\<rparr>"
  by code_simp

text \<open>
  C3 (as amended). A page element gives a record exactly when its title child and its
  revision-text child are both present and carry text; the record holds the two texts
  trimmed (either may then be empty). A page element that gives no record and is met at
  the top of the main loop is counted as a failure and advances the position.
\<close>

theorem record_iff_both_texts_present:
  "(process_page e \<noteq> None \<longleftrightarrow> (\<exists>t x. title_elem e = Text t \<and> text_elem e = Text x))
   \<and> (title_elem e = Text t \<and> text_elem e = Text x \<longrightarrow> process_page e = Some (strip t, strip x))
   \<and> (process_page e = None \<and> \<not> should_exit st \<and> tag e = page_tag (namespace st) \<longrightarrow>
        main_loop ev bs st (Ev End e # rest)
          = main_loop ev bs (st\<lparr>failed := failed st + 1, processed := processed st + 1\<rparr>) rest)"
proof -
  have "valid c \<longleftrightarrow> (\<exists>s. c = Text s)" for c by (cases c) simp_all
  then have "process_page e \<noteq> None \<longleftrightarrow> (\<exists>t x. title_elem e = Text t \<and> text_elem e = Text x)"
    by (simp add: process_page_def)
  moreover have "title_elem e = Text t \<and> text_elem e = Text x \<longrightarrow> process_page e = Some (strip t, strip x)"
    by (simp add: process_page_def)
  moreover have "process_page e = None \<and> \<not> should_exit st \<and> tag e = page_tag (namespace st) \<longrightarrow>
        main_loop ev bs st (Ev End e # rest)
          = main_loop ev bs (st\<lparr>failed := failed st + 1, processed := processed st + 1\<rparr>) rest"
    by (simp add: main_loop.simps(3))
  ultimately show ?thesis by blast
qed

theorem record_iff_both_texts_present_witness:
  "title_elem \<lparr>tag = ''{x}page'', title_elem = Text '' A '', text_elem = Text ''a''\<rparr> = Text '' A ''
   \<and> process_page \<lparr>tag = ''{x}page'', title_elem = Text '' A '', text_elem = Text ''a''\<rparr>
       = Some (''A'', ''a'')
   \<and> process_page \<lparr>tag = ''{x}page'', title_elem = Text ''Stub'', text_elem = NoText\<rparr> = None
   \<and> main_loop ex_env 2 ((initial_state 0 0 0)\<lparr>namespace := Some ''x''\<rparr>)
        [Ev End \<lparr>tag = ''{x}page'', title_elem = Text ''Stub'', text_elem = NoText\<rparr>]
       = \<lparr>final = (initial_state 0 0 0)\<lparr>namespace := Some ''x'', failed := 1, processed := 1\<rparr>,
          exit_code = 0, unread = []\<rparr>"
  using record_iff_both_texts_present
    [of "\<lparr>tag = ''{x}page'', title_elem = Text '' A '', text_elem = Text ''a''\<rparr>" "'' A ''" "''a''"
        "initial_state 0 0 0" ex_env 2 "[]"]
    record_iff_both_texts_present
    [of "\<lparr>tag = ''{x}page'', title_elem = Text ''Stub'', text_elem = NoText\<rparr>" "[]" "[]"
        "(initial_state 0 0 0)\<lparr>namespace := Some ''x''\<rparr>" ex_env 2 "[]"]
  by (simp add: process_page_def strip_def py_isspace_def initial_state_def page_tag_def)

text \<open>
  C3 as stated fails: a title of blanks is empty after trimming, and a record is produced.
\<close>

theorem blank_title_gives_record_counterexample:
  "process_page \<lparr>tag = ''{x}page'', title_elem = Text ''  '', text_elem = Text ''text''\<rparr>
     = Some ([], ''text'')"
  by (simp add: process_page_def strip_def py_isspace_def)









section \<open>Conversion Invoker: properties\<close>



section \<open>Markup Cleaner: properties\<close>
































lemma not_plain [simp]:
  "\<not> plain CHR ''{''" "\<not> plain CHR ''}''" "\<not> plain CHR ''[''" "\<not> plain CHR '']''"
  "\<not> plain CHR ''|''" "\<not> plain CHR ''<''"
  by (simp_all add: plain_def)


















































end
